theory Spec2Isabelle
  imports Complex_Main
begin

section \<open>Values shared by the modules\<close>

text \<open>
  Python numbers (JSON integers and floats, and the float constants of the spread
  table) are modelled by exact reals: products and comparisons are the mathematical
  ones, without the rounding of IEEE doubles.  Dictionaries with a fixed set of keys
  are records; a key that the code reads with \<^verbatim>\<open>.get\<close> may be missing and is an
  option field, as is a value that may be Python's \<^verbatim>\<open>None\<close>.  Every exception the
  modelled code can raise is a value of \<open>py_error\<close>.
\<close>

datatype py_error =
    KeyError
  | TypeError
  | ValueError
  | ZeroDivisionError
  | InvalidId
  | DuplicateKeyError
  | SocketError

text \<open>\<^verbatim>\<open>d.get(k, default)\<close> on a dictionary.\<close>

definition dict_get :: "('k \<rightharpoonup> 'v) \<Rightarrow> 'k \<Rightarrow> 'v \<Rightarrow> 'v" where
  "dict_get d k dflt = (case d k of None \<Rightarrow> dflt | Some v \<Rightarrow> v)"

text \<open>
  A \<^verbatim>\<open>location\<close> dictionary.  In a request payload a field is \<open>None\<close> when the
  key is missing; \<^verbatim>\<open>create_hazard\<close> copies each key with \<^verbatim>\<open>.get\<close>, so in a stored
  document the same field is Python's \<^verbatim>\<open>None\<close>.
\<close>

record location =
  lat :: "real option"
  lng :: "real option"
  sector :: "string option"

record sensor_data =
  sd_co2 :: "real option"
  sd_temperature :: "real option"
  sd_humidity :: "real option"

text \<open>
  The text of the \<^verbatim>\<open>description\<close> field: either a string given by the reporter or
  the f-string \<^verbatim>\<open>Auto-detected: CO2={co2}ppm, Temp={temperature}..., Humidity={humidity}%\<close>,
  kept as its three interpolated values.
\<close>

datatype description = Text string | AutoDetected real real real

text \<open>
  A hazard document as \<^verbatim>\<open>get_hazard_by_id\<close> returns it (\<^verbatim>\<open>_id\<close> already a string).
  \<open>htype\<close> is the key \<^verbatim>\<open>type\<close>; it is \<open>None\<close> when the dictionary has no such key,
  the case \<^verbatim>\<open>hazard.get('type', 'Gas Leak')\<close> provides for.  \<open>timestamp\<close> is the
  clock reading \<^verbatim>\<open>datetime.utcnow()\<close> in seconds.
\<close>

record hazard =
  h_id :: string
  htype :: "string option"
  severity :: "string option"
  location :: location
  worker :: string
  source :: string
  timestamp :: nat
  status :: string
  description :: description
  sensorData :: sensor_data

section \<open>utils/simulation.py: class HazardSimulation\<close>

definition SPREAD_RATES :: "string \<rightharpoonup> real" where
  "SPREAD_RATES = map_of
     [(''Gas Leak'', 0.002),
      (''Fire'', 0.003),
      (''Rock Fall'', 0.001),
      (''Poor Ventilation'', 0.0015),
      (''Equipment Failure'', 0.0008),
      (''SOS - EMERGENCY'', 0.004)]"

definition DANGER_THRESHOLDS :: "string \<rightharpoonup> real" where
  "DANGER_THRESHOLDS = map_of
     [(''critical'', 1.0), (''high'', 0.75), (''medium'', 0.5)]"

record danger_zone =
  level :: string
  radius :: real
  color :: string
  zone_severity :: string
  evacuation_time_minutes :: int

text \<open>
  \<^verbatim>\<open>hazard_type = hazard.get('type', 'Gas Leak')\<close>,
  \<^verbatim>\<open>spread_rate = SPREAD_RATES.get(hazard_type, 0.002)\<close>.
\<close>

definition spread_rate :: "hazard \<Rightarrow> real" where
  "spread_rate hz =
     (let hazard_type = (case htype hz of None \<Rightarrow> ''Gas Leak'' | Some ty \<Rightarrow> ty)
      in dict_get SPREAD_RATES hazard_type 0.002)"

definition calculate_danger_zones :: "hazard \<Rightarrow> real \<Rightarrow> danger_zone list" where
  "calculate_danger_zones hz simulation_time_seconds =
     (let max_radius = simulation_time_seconds * spread_rate hz
      in [\<lparr>level = ''critical'', radius = max_radius * 0.33, color = ''#ef4444'',
            zone_severity = ''critical'', evacuation_time_minutes = 1\<rparr>,
          \<lparr>level = ''high'', radius = max_radius * 0.67, color = ''#f97316'',
            zone_severity = ''high'', evacuation_time_minutes = 3\<rparr>,
          \<lparr>level = ''medium'', radius = max_radius, color = ''#eab308'',
            zone_severity = ''medium'', evacuation_time_minutes = 5\<rparr>])"

text \<open>
  \<^verbatim>\<open>detect_hazard_from_sensors(co2, temperature, humidity)\<close>: the pair
  \<^verbatim>\<open>(hazard_type, severity)\<close>, \<^verbatim>\<open>(None, None)\<close> when no branch fires.
\<close>

definition detect_hazard_from_sensors ::
  "real \<Rightarrow> real \<Rightarrow> real \<Rightarrow> string option \<times> string option" where
  "detect_hazard_from_sensors co2 temperature humidity =
     (if co2 > 1000 then
        (Some ''Gas Leak'', Some (if co2 > 2000 then ''critical'' else ''high''))
      else if temperature > 40 then
        (Some ''Fire'', Some (if temperature > 55 then ''critical'' else ''high''))
      else if humidity < 20 then
        (Some ''Poor Ventilation'', Some ''medium'')
      else if 800 < co2 \<and> co2 \<le> 1000 then
        (Some ''High CO2 Levels'', Some ''medium'')
      else (None, None))"

record route =
  direction :: string
  priority :: string
  estimated_time_minutes :: int

text \<open>
  \<^verbatim>\<open>get_evacuation_route(hazard_location, worker_location, sector)\<close>.  The first two
  arguments are never read, so they may be of any type; \<open>sector\<close> is compared with
  \<^verbatim>\<open>==\<close>, which is false for \<^verbatim>\<open>None\<close>.
\<close>

definition get_evacuation_route :: "'a \<Rightarrow> 'b \<Rightarrow> string option \<Rightarrow> route" where
  "get_evacuation_route hazard_location worker_location sec =
     (let direction0 = ''Exit to safe zone away from hazard'';
          dir = (if sec = Some ''A'' then ''Move to Sector C via Tunnel 2''
                 else if sec = Some ''B'' then ''Move to Sector A via Tunnel 1''
                 else if sec = Some ''C'' then ''Exit mine immediately via Main Entrance''
                 else direction0)
      in \<lparr>direction = dir, priority = ''CRITICAL'', estimated_time_minutes = 2\<rparr>)"

text \<open>The request of the docstring of \<^verbatim>\<open>report_hazard\<close>, as a stored document.\<close>

definition example_hazard :: hazard where
  "example_hazard =
     \<lparr>h_id = ''64b7f0c2a1d3e4f5a6b7c8d9'', htype = Some ''Gas Leak'', severity = Some ''high'',
      location = \<lparr>lat = Some 23.045, lng = Some 81.325, sector = Some ''A''\<rparr>,
      worker = ''W001'', source = ''WORKER'', timestamp = 0, status = ''pending'',
      description = Text ''High methane levels'',
      sensorData = \<lparr>sd_co2 = None, sd_temperature = None, sd_humidity = None\<rparr>\<rparr>"

subsection \<open>get_affected_workers and get_action\<close>

text \<open>
  A worker dictionary; every key is read with \<^verbatim>\<open>.get\<close>, so every field may be
  missing.  \<^verbatim>\<open>worker.get('lat', 0)\<close> and \<^verbatim>\<open>worker.get('lng', 0)\<close> default to 0.
\<close>

record mine_worker =
  w_id :: "string option"
  w_name :: "string option"
  w_role :: "string option"
  w_sector :: "string option"
  w_lat :: "real option"
  w_lng :: "real option"

record affected_worker =
  worker_id :: "string option"
  name :: "string option"
  role :: "string option"
  worker_sector :: "string option"
  distance_from_hazard :: real
  recommended_action :: string

text \<open>The dictionary \<^verbatim>\<open>affected\<close>, from a level to the list of its workers.\<close>

type_synonym affected = "string \<rightharpoonup> affected_worker list"

definition get_action :: "string \<Rightarrow> string \<Rightarrow> string" where
  "get_action danger_level hazard_type =
     (let actions = map_of
        [(''critical'', ''IMMEDIATE EVACUATION - '' @ hazard_type @
            '' detected in critical zone. Leave now!''),
         (''high'', ''EVACUATE AREA - '' @ hazard_type @ '' spreading. Move to safe zone.''),
         (''medium'', ''ALERT - '' @ hazard_type @
            '' detected nearby. Prepare for evacuation.'')]
      in dict_get actions danger_level ''Monitor situation'')"

text \<open>
  \<^verbatim>\<open>round(x)\<close> rounds half to even; \<^verbatim>\<open>round(x, 4)\<close> is that rounding at the fourth
  decimal place.
\<close>

definition py_round :: "real \<Rightarrow> int" where
  "py_round x =
     (let f = \<lfloor>x\<rfloor>; d = x - of_int f
      in if d < 1 / 2 then f else if 1 / 2 < d then f + 1
         else if even f then f else f + 1)"

definition round4 :: "real \<Rightarrow> real" where
  "round4 x = of_int (py_round (x * 10000)) / 10000"

text \<open>
  \<^verbatim>\<open>math.sqrt((worker_lat - hazard_lat) ** 2 + (worker_lng - hazard_lng) ** 2)\<close> with
  \<^verbatim>\<open>worker_lat = worker.get('lat', 0)\<close> and \<^verbatim>\<open>worker_lng = worker.get('lng', 0)\<close>.
\<close>

definition euclidean_distance :: "real \<Rightarrow> real \<Rightarrow> mine_worker \<Rightarrow> real" where
  "euclidean_distance hazard_lat hazard_lng w =
     (let worker_lat = (case w_lat w of None \<Rightarrow> 0 | Some x \<Rightarrow> x);
          worker_lng = (case w_lng w of None \<Rightarrow> 0 | Some x \<Rightarrow> x)
      in sqrt ((worker_lat - hazard_lat)\<^sup>2 + (worker_lng - hazard_lng)\<^sup>2))"

text \<open>The subtraction raises \<^verbatim>\<open>TypeError\<close> when the hazard's coordinate is \<^verbatim>\<open>None\<close>.\<close>

definition worker_distance :: "hazard \<Rightarrow> mine_worker \<Rightarrow> py_error + real" where
  "worker_distance hz w =
     (case lat (location hz) of
        None \<Rightarrow> Inl TypeError
      | Some hazard_lat \<Rightarrow>
          (case lng (location hz) of
             None \<Rightarrow> Inl TypeError
           | Some hazard_lng \<Rightarrow> Inr (euclidean_distance hazard_lat hazard_lng w)))"

text \<open>The dictionary appended to a bucket.\<close>

definition affected_entry :: "mine_worker \<Rightarrow> real \<Rightarrow> string \<Rightarrow> string \<Rightarrow> affected_worker" where
  "affected_entry w distance zone_level hazard_type =
     \<lparr>worker_id = w_id w, name = w_name w, role = w_role w, worker_sector = w_sector w,
      distance_from_hazard = round4 distance,
      recommended_action = get_action zone_level hazard_type\<rparr>"

text \<open>
  The body of \<^verbatim>\<open>for worker in workers\<close>: the inner loop stops at the first zone
  with \<^verbatim>\<open>distance <= zone['radius']\<close> (\<^verbatim>\<open>break\<close>), and the worker is appended to
  \<^verbatim>\<open>affected[zone['level']]\<close>.  Building the entry reads \<^verbatim>\<open>hazard['type']\<close>, which
  raises \<^verbatim>\<open>KeyError\<close> when the key is missing.
\<close>

definition place_worker ::
  "hazard \<Rightarrow> danger_zone list \<Rightarrow> affected \<Rightarrow> mine_worker \<Rightarrow> py_error + affected" where
  "place_worker hz zones aff w =
     (case worker_distance hz w of
        Inl e \<Rightarrow> Inl e
      | Inr distance \<Rightarrow>
          (case find (\<lambda>zone. distance \<le> radius zone) zones of
             None \<Rightarrow> Inr aff
           | Some zone \<Rightarrow>
               (case aff (level zone) of
                  None \<Rightarrow> Inl KeyError
                | Some bucket \<Rightarrow>
                    (case htype hz of
                       None \<Rightarrow> Inl KeyError
                     | Some ty \<Rightarrow>
                         Inr (aff(level zone \<mapsto>
                                bucket @ [affected_entry w distance (level zone) ty]))))))"

fun place_workers ::
  "hazard \<Rightarrow> danger_zone list \<Rightarrow> affected \<Rightarrow> mine_worker list \<Rightarrow> py_error + affected" where
  "place_workers hz zones aff [] = Inr aff"
| "place_workers hz zones aff (w # ws) =
     (case place_worker hz zones aff w of
        Inl e \<Rightarrow> Inl e
      | Inr aff' \<Rightarrow> place_workers hz zones aff' ws)"

definition get_affected_workers ::
  "hazard \<Rightarrow> mine_worker list \<Rightarrow> real \<Rightarrow> py_error + affected" where
  "get_affected_workers hz workers simulation_time_seconds =
     (let zones = calculate_danger_zones hz simulation_time_seconds;
          aff = [''critical'' \<mapsto> [], ''high'' \<mapsto> [], ''medium'' \<mapsto> []]
      in place_workers hz zones aff workers)"

subsection \<open>generate_simulation_frames\<close>

text \<open>
  \<^verbatim>\<open>range(start, stop, step)\<close> as the list it iterates over; a zero step raises
  \<^verbatim>\<open>ValueError\<close>.  \<^verbatim>\<open>int(x)\<close> truncates towards zero.
\<close>

definition py_range :: "int \<Rightarrow> int \<Rightarrow> int \<Rightarrow> py_error + int list" where
  "py_range start stop step =
     (if step = 0 then Inl ValueError
      else if 0 < step then
        Inr (map (\<lambda>k. start + int k * step) [0..<nat ((stop - start + step - 1) div step)])
      else
        Inr (map (\<lambda>k. start + int k * step)
               [0..<nat ((start - stop - step - 1) div (- step))]))"

definition py_int :: "real \<Rightarrow> int" where
  "py_int x = (if 0 \<le> x then \<lfloor>x\<rfloor> else \<lceil>x\<rceil>)"

record frame =
  time :: int
  danger_zones :: "danger_zone list"
  affected_workers :: affected
  hazard_center :: location

text \<open>One pass of the loop body, for the time step \<open>t\<close>.\<close>

definition make_frame :: "hazard \<Rightarrow> mine_worker list \<Rightarrow> int \<Rightarrow> py_error + frame" where
  "make_frame hz workers t =
     (case get_affected_workers hz workers (of_int t) of
        Inl e \<Rightarrow> Inl e
      | Inr aff \<Rightarrow>
          Inr \<lparr>time = t,
               danger_zones = calculate_danger_zones hz (of_int t),
               affected_workers = aff,
               hazard_center = \<lparr>lat = lat (location hz), lng = lng (location hz),
                                 sector = sector (location hz)\<rparr>\<rparr>)"

fun frames_loop :: "hazard \<Rightarrow> mine_worker list \<Rightarrow> int list \<Rightarrow> py_error + frame list" where
  "frames_loop hz workers [] = Inr []"
| "frames_loop hz workers (t # ts) =
     (case make_frame hz workers t of
        Inl e \<Rightarrow> Inl e
      | Inr fr \<Rightarrow>
          (case frames_loop hz workers ts of
             Inl e \<Rightarrow> Inl e
           | Inr frs \<Rightarrow> Inr (fr # frs)))"

text \<open>
  \<^verbatim>\<open>frame_interval = 1 / fps\<close> raises \<^verbatim>\<open>ZeroDivisionError\<close> for \<^verbatim>\<open>fps = 0\<close>; the
  loop runs over \<^verbatim>\<open>range(0, total_seconds, int(1 / frame_interval))\<close>.
\<close>

definition frame_step :: "int \<Rightarrow> py_error + int" where
  "frame_step fps =
     (if fps = 0 then Inl ZeroDivisionError
      else let frame_interval = 1 / real_of_int fps
           in if frame_interval = 0 then Inl ZeroDivisionError
              else Inr (py_int (1 / frame_interval)))"

definition generate_simulation_frames ::
  "hazard \<Rightarrow> mine_worker list \<Rightarrow> int \<Rightarrow> int \<Rightarrow> py_error + frame list" where
  "generate_simulation_frames hz workers total_seconds fps =
     (case frame_step fps of
        Inl e \<Rightarrow> Inl e
      | Inr step \<Rightarrow>
          (case py_range 0 total_seconds step of
             Inl e \<Rightarrow> Inl e
           | Inr ts \<Rightarrow> frames_loop hz workers ts))"

section \<open>models.py: the collections\<close>

text \<open>
  An \<^verbatim>\<open>ObjectId\<close> is modelled by the text \<^verbatim>\<open>str\<close> gives for it: 24 lower-case
  hexadecimal digits.  \<^verbatim>\<open>ObjectId(s)\<close> accepts a string of 24 hexadecimal digits of
  either case and raises \<^verbatim>\<open>InvalidId\<close> for any other string.
\<close>

definition is_hex_digit :: "char \<Rightarrow> bool" where
  "is_hex_digit c \<longleftrightarrow> c \<in> set ''0123456789abcdefABCDEF''"

definition hex_lower :: "char \<Rightarrow> char" where
  "hex_lower c =
     (if c = CHR ''A'' then CHR ''a'' else if c = CHR ''B'' then CHR ''b''
      else if c = CHR ''C'' then CHR ''c'' else if c = CHR ''D'' then CHR ''d''
      else if c = CHR ''E'' then CHR ''e'' else if c = CHR ''F'' then CHR ''f''
      else c)"

definition ObjectId :: "string \<Rightarrow> py_error + string" where
  "ObjectId s =
     (if length s = 24 \<and> list_all is_hex_digit s then Inr (map hex_lower s)
      else Inl InvalidId)"

text \<open>The identifiers the driver generates on insertion are of this form.\<close>

definition generated_id :: "string \<Rightarrow> bool" where
  "generated_id s \<longleftrightarrow> length s = 24 \<and> list_all (\<lambda>c. c \<in> set ''0123456789abcdef'') s"

record sensor_reading =
  r_workerId :: "string option"
  r_co2 :: "real option"
  r_temperature :: "real option"
  r_humidity :: "real option"
  r_location :: location
  r_timestamp :: nat

text \<open>
  The database: the hazard documents in insertion order, each with its identifier
  in \<open>h_id\<close>, and the log of sensor readings.
\<close>

record db =
  hazards_collection :: "hazard list"
  sensors_collection :: "sensor_reading list"

text \<open>\<^verbatim>\<open>hazards_collection.find_one({'_id': oid})\<close>.\<close>

definition find_one :: "hazard list \<Rightarrow> string \<Rightarrow> hazard option" where
  "find_one coll oid = find (\<lambda>d. h_id d = oid) coll"

text \<open>
  \<^verbatim>\<open>hazards_collection.insert_one(hazard)\<close> with the identifier the driver generated
  for the document; the server refuses a second document with the same identifier.
\<close>

definition insert_one :: "hazard list \<Rightarrow> hazard \<Rightarrow> py_error + hazard list" where
  "insert_one coll doc =
     (if find_one coll (h_id doc) = None then Inr (coll @ [doc])
      else Inl DuplicateKeyError)"

text \<open>
  \<^verbatim>\<open>hazards_collection.update_one({'_id': oid}, {'$set': {'status': status}})\<close>.
  The result counts the documents the filter matched and the documents the update
  changed: setting a field to the value it already holds matches the document and
  modifies none.
\<close>

record update_result =
  matched_count :: nat
  modified_count :: nat

fun update_one :: "hazard list \<Rightarrow> string \<Rightarrow> string \<Rightarrow> hazard list \<times> update_result" where
  "update_one [] oid st = ([], \<lparr>matched_count = 0, modified_count = 0\<rparr>)"
| "update_one (d # ds) oid st =
     (if h_id d = oid then
        (if status d = st then (d # ds, \<lparr>matched_count = 1, modified_count = 0\<rparr>)
         else (d\<lparr>status := st\<rparr> # ds, \<lparr>matched_count = 1, modified_count = 1\<rparr>))
      else (case update_one ds oid st of (ds', res) \<Rightarrow> (d # ds', res)))"

subsection \<open>class HazardModel\<close>

text \<open>
  A function that reads or writes the database takes the database and returns its
  result, or the exception raised, together with the database it leaves.
\<close>

definition get_hazard_by_id :: "db \<Rightarrow> string \<Rightarrow> py_error + hazard option" where
  "get_hazard_by_id dbs hazard_id =
     (case ObjectId hazard_id of
        Inl e \<Rightarrow> Inl e
      | Inr oid \<Rightarrow> Inr (find_one (hazards_collection dbs) oid))"

text \<open>
  The argument of \<^verbatim>\<open>create_hazard\<close>.  Both routes that call it pass the keys
  \<^verbatim>\<open>type\<close>, \<^verbatim>\<open>severity\<close>, \<^verbatim>\<open>location\<close>, \<^verbatim>\<open>worker\<close>, \<^verbatim>\<open>source\<close> and
  \<^verbatim>\<open>description\<close>, so the defaults of \<^verbatim>\<open>.get\<close> for them never apply;
  \<open>hd_severity\<close> is \<open>None\<close> when the value passed is \<^verbatim>\<open>None\<close>, and
  \<open>hd_sensorData\<close> is \<open>None\<close> when that key is missing.
\<close>

record hazard_data =
  hd_type :: string
  hd_severity :: "string option"
  hd_location :: location
  hd_worker :: string
  hd_source :: string
  hd_description :: description
  hd_sensorData :: "sensor_data option"

text \<open>
  The dictionary \<^verbatim>\<open>hazard\<close> that \<^verbatim>\<open>create_hazard\<close> inserts: \<open>now\<close> is the value of
  \<^verbatim>\<open>datetime.utcnow()\<close> and \<open>new_id\<close> the identifier the driver generates for the
  inserted document.  The function returns \<^verbatim>\<open>get_hazard_by_id(str(result.inserted_id))\<close>.
\<close>

definition hazard_document :: "hazard_data \<Rightarrow> nat \<Rightarrow> string \<Rightarrow> hazard" where
  "hazard_document hdata now new_id =
     \<lparr>h_id = new_id,
      htype = Some (hd_type hdata),
      severity = hd_severity hdata,
      location = \<lparr>lat = lat (hd_location hdata), lng = lng (hd_location hdata),
                  sector = sector (hd_location hdata)\<rparr>,
      worker = hd_worker hdata,
      source = hd_source hdata,
      timestamp = now,
      status = ''pending'',
      description = hd_description hdata,
      sensorData = (case hd_sensorData hdata of
                      None \<Rightarrow> \<lparr>sd_co2 = None, sd_temperature = None, sd_humidity = None\<rparr>
                    | Some sd \<Rightarrow> \<lparr>sd_co2 = sd_co2 sd, sd_temperature = sd_temperature sd,
                                  sd_humidity = sd_humidity sd\<rparr>)\<rparr>"

definition create_hazard ::
  "db \<Rightarrow> hazard_data \<Rightarrow> nat \<Rightarrow> string \<Rightarrow> (py_error + hazard option) \<times> db" where
  "create_hazard dbs hdata now new_id =
     (case insert_one (hazards_collection dbs) (hazard_document hdata now new_id) of
        Inl e \<Rightarrow> (Inl e, dbs)
      | Inr coll \<Rightarrow>
          (let dbs' = dbs\<lparr>hazards_collection := coll\<rparr>
           in (get_hazard_by_id dbs' new_id, dbs')))"

definition HazardModel_update_hazard_status ::
  "db \<Rightarrow> string \<Rightarrow> string \<Rightarrow> (py_error + hazard option) \<times> db" where
  "HazardModel_update_hazard_status dbs hazard_id st =
     (case ObjectId hazard_id of
        Inl e \<Rightarrow> (Inl e, dbs)
      | Inr oid \<Rightarrow>
          (case update_one (hazards_collection dbs) oid st of
             (coll, result) \<Rightarrow>
               (let dbs' = dbs\<lparr>hazards_collection := coll\<rparr>
                in if modified_count result > 0 then (get_hazard_by_id dbs' hazard_id, dbs')
                   else (Inr None, dbs'))))"

subsection \<open>class SensorModel\<close>

text \<open>The JSON body of a sensor request; a field is \<open>None\<close> when the key is missing.\<close>

record sensor_payload =
  p_co2 :: "real option"
  p_temperature :: "real option"
  p_humidity :: "real option"
  p_location :: "location option"
  p_workerId :: "string option"

definition log_sensor_reading :: "db \<Rightarrow> sensor_payload \<Rightarrow> nat \<Rightarrow> db" where
  "log_sensor_reading dbs sdata now =
     (let loc = (case p_location sdata of
                   None \<Rightarrow> \<lparr>lat = None, lng = None, sector = None\<rparr>
                 | Some l \<Rightarrow> l);
          reading = \<lparr>r_workerId = p_workerId sdata,
                     r_co2 = p_co2 sdata,
                     r_temperature = p_temperature sdata,
                     r_humidity = p_humidity sdata,
                     r_location = \<lparr>lat = lat loc, lng = lng loc, sector = sector loc\<rparr>,
                     r_timestamp = now\<rparr>
      in dbs\<lparr>sensors_collection := sensors_collection dbs @ [reading]\<rparr>)"

section \<open>The routes\<close>

text \<open>The JSON bodies the two routes return, each with its HTTP status code.\<close>

datatype response =
    HazardDetected string "string option" string
  | AllNormal
  | StatusUpdated hazard string
  | InvalidStatus
  | HazardNotFound
  | ServerError py_error

fun status_code :: "response \<Rightarrow> nat" where
  "status_code (HazardDetected hazardType sev hazardId) = 201"
| "status_code AllNormal = 200"
| "status_code (StatusUpdated hz st) = 200"
| "status_code InvalidStatus = 400"
| "status_code HazardNotFound = 404"
| "status_code (ServerError e) = 500"

subsection \<open>routes/hazards.py: update_hazard_status\<close>

definition valid_statuses :: "string list" where
  "valid_statuses = [''pending'', ''acknowledged'', ''escalated'', ''resolved'']"

text \<open>
  \<open>rdata\<close> is the JSON object of the request, \<^verbatim>\<open>data.get('status')\<close> its entry
  \<^verbatim>\<open>status\<close>; a missing entry is \<^verbatim>\<open>None\<close>, which is not in the list.  An exception
  of the model call is caught by the route and answered with status 500.
\<close>

definition update_hazard_status ::
  "db \<Rightarrow> string \<Rightarrow> (string \<rightharpoonup> string) \<Rightarrow> response \<times> db" where
  "update_hazard_status dbs hazard_id rdata =
     (let st = rdata ''status''
      in case st of
           None \<Rightarrow> (InvalidStatus, dbs)
         | Some s \<Rightarrow>
             if s \<notin> set valid_statuses then (InvalidStatus, dbs)
             else (case HazardModel_update_hazard_status dbs hazard_id s of
                     (Inl e, dbs') \<Rightarrow> (ServerError e, dbs')
                   | (Inr None, dbs') \<Rightarrow> (HazardNotFound, dbs')
                   | (Inr (Some updated_hazard), dbs') \<Rightarrow>
                       (StatusUpdated updated_hazard s, dbs')))"

subsection \<open>routes/sensors.py: receive_sensor_data\<close>

text \<open>
  The application object: \<open>None\<close> when it has no attribute \<^verbatim>\<open>socketio\<close>, otherwise
  the behaviour of \<^verbatim>\<open>socketio.emit\<close> on an event, which returns (\<open>None\<close>) or raises.
\<close>

datatype event = NewHazard "hazard option" | StartSimulation string

type_synonym socketio = "event \<Rightarrow> py_error option"

text \<open>
  The inner \<^verbatim>\<open>try\<close> block: the events whose \<^verbatim>\<open>emit\<close> returned, and what the
  handler printed.  Reading \<^verbatim>\<open>hazard['_id']\<close> of \<^verbatim>\<open>None\<close> raises \<^verbatim>\<open>TypeError\<close>.
\<close>

definition emit_new_hazard ::
  "socketio option \<Rightarrow> hazard option \<Rightarrow> event list \<times> py_error list" where
  "emit_new_hazard app hzo =
     (case app of
        None \<Rightarrow> ([], [])
      | Some emit \<Rightarrow>
          (case emit (NewHazard hzo) of
             Some e \<Rightarrow> ([], [e])
           | None \<Rightarrow>
               (case hzo of
                  None \<Rightarrow> ([NewHazard hzo], [TypeError])
                | Some hz \<Rightarrow>
                    (case emit (StartSimulation (h_id hz)) of
                       Some e \<Rightarrow> ([NewHazard hzo], [e])
                     | None \<Rightarrow> ([NewHazard hzo, StartSimulation (h_id hz)], [])))))"

record route_result =
  rr_response :: response
  rr_db :: db
  rr_emitted :: "event list"
  rr_printed :: "py_error list"

text \<open>
  \<^verbatim>\<open>data.get('co2', 400)\<close>, \<^verbatim>\<open>data.get('temperature', 25)\<close> and
  \<^verbatim>\<open>data.get('humidity', 60)\<close>.
\<close>

definition reading_co2 :: "sensor_payload \<Rightarrow> real" where
  "reading_co2 sdata = (case p_co2 sdata of None \<Rightarrow> 400 | Some x \<Rightarrow> x)"

definition reading_temperature :: "sensor_payload \<Rightarrow> real" where
  "reading_temperature sdata = (case p_temperature sdata of None \<Rightarrow> 25 | Some x \<Rightarrow> x)"

definition reading_humidity :: "sensor_payload \<Rightarrow> real" where
  "reading_humidity sdata = (case p_humidity sdata of None \<Rightarrow> 60 | Some x \<Rightarrow> x)"

text \<open>The dictionary the route passes to \<^verbatim>\<open>create_hazard\<close>.\<close>

definition detected_hazard_data ::
  "sensor_payload \<Rightarrow> string \<Rightarrow> string option \<Rightarrow> hazard_data" where
  "detected_hazard_data sdata hazard_type sev =
     \<lparr>hd_type = hazard_type,
      hd_severity = sev,
      hd_location = (case p_location sdata of
                       None \<Rightarrow> \<lparr>lat = None, lng = None, sector = None\<rparr>
                     | Some l \<Rightarrow> l),
      hd_worker = (case p_workerId sdata of None \<Rightarrow> ''SENSOR_01'' | Some x \<Rightarrow> x),
      hd_source = ''IoT_SENSOR'',
      hd_description =
        AutoDetected (reading_co2 sdata) (reading_temperature sdata) (reading_humidity sdata),
      hd_sensorData = Some \<lparr>sd_co2 = Some (reading_co2 sdata),
                             sd_temperature = Some (reading_temperature sdata),
                             sd_humidity = Some (reading_humidity sdata)\<rparr>\<rparr>"

text \<open>
  \<open>now_log\<close> and \<open>now_create\<close> are the two clock readings of the request, \<open>new_id\<close>
  the identifier generated for the hazard document.  An exception of
  \<^verbatim>\<open>create_hazard\<close>, or of reading \<^verbatim>\<open>hazard['_id']\<close> for the response, is caught by
  the outer handler and answered with status 500.
\<close>

definition receive_sensor_data ::
  "socketio option \<Rightarrow> db \<Rightarrow> sensor_payload \<Rightarrow> nat \<Rightarrow> nat \<Rightarrow> string \<Rightarrow> route_result" where
  "receive_sensor_data app dbs sdata now_log now_create new_id =
     (let dbs1 = log_sensor_reading dbs sdata now_log
      in case detect_hazard_from_sensors
                (reading_co2 sdata) (reading_temperature sdata) (reading_humidity sdata) of
           (None, sev) \<Rightarrow>
             \<lparr>rr_response = AllNormal, rr_db = dbs1, rr_emitted = [], rr_printed = []\<rparr>
         | (Some hazard_type, sev) \<Rightarrow>
             (case create_hazard dbs1 (detected_hazard_data sdata hazard_type sev)
                     now_create new_id of
                (Inl e, dbs2) \<Rightarrow>
                  \<lparr>rr_response = ServerError e, rr_db = dbs2, rr_emitted = [],
                   rr_printed = []\<rparr>
              | (Inr hzo, dbs2) \<Rightarrow>
                  (case emit_new_hazard app hzo of
                     (sent, printed) \<Rightarrow>
                       \<lparr>rr_response =
                          (case hzo of
                             None \<Rightarrow> ServerError TypeError
                           | Some hz \<Rightarrow> HazardDetected hazard_type sev (h_id hz)),
                        rr_db = dbs2, rr_emitted = sent, rr_printed = printed\<rparr>)))"

text \<open>A socket whose \<^verbatim>\<open>emit\<close> always raises, and a reading with a gas alarm.\<close>

definition failing_socket :: socketio where
  "failing_socket ev = Some SocketError"

definition gas_reading :: sensor_payload where
  "gas_reading =
     \<lparr>p_co2 = Some 1500, p_temperature = Some 28.5, p_humidity = Some 65,
      p_location = Some \<lparr>lat = Some 23.045, lng = Some 81.325, sector = Some ''A''\<rparr>,
      p_workerId = Some ''SENSOR_01''\<rparr>"

section \<open>The specification's exposure rule, and example inputs\<close>

text \<open>
  Following the words of the specification, not the code: a worker at distance \<open>d\<close>
  is assigned to the first zone, in the order critical, high, medium, whose radius is
  at least \<open>d\<close>, and to no zone when \<open>d\<close> exceeds all three radii.
\<close>

definition spec_zone_of :: "real \<Rightarrow> real \<Rightarrow> real \<Rightarrow> real \<Rightarrow> string option" where
  "spec_zone_of rc rh rm d =
     (if d \<le> rc then Some ''critical''
      else if d \<le> rh then Some ''high''
      else if d \<le> rm then Some ''medium''
      else None)"

text \<open>
  The bucket of a level according to the specification: the entries of the workers
  assigned to that level, in the order of the input list.
\<close>

definition spec_bucket ::
  "real \<Rightarrow> real \<Rightarrow> real \<Rightarrow> real \<Rightarrow> real \<Rightarrow> string \<Rightarrow> string \<Rightarrow> mine_worker list
     \<Rightarrow> affected_worker list" where
  "spec_bucket rc rh rm hlat hlng ty lvl ws =
     map (\<lambda>w. affected_entry w (euclidean_distance hlat hlng w) lvl ty)
       (filter (\<lambda>w. spec_zone_of rc rh rm (euclidean_distance hlat hlng w) = Some lvl) ws)"

text \<open>The dictionary \<^verbatim>\<open>affected\<close> with the three given buckets.\<close>

definition three_buckets :: "(string \<Rightarrow> affected_worker list) \<Rightarrow> affected" where
  "three_buckets B =
     [''critical'' \<mapsto> B ''critical'', ''high'' \<mapsto> B ''high'', ''medium'' \<mapsto> B ''medium'']"

text \<open>
  Three workers around the example hazard: one at its origin, one at distance 0.01
  and one at distance 0.05.
\<close>

definition origin_worker :: mine_worker where
  "origin_worker = \<lparr>w_id = Some ''W001'', w_name = Some ''John Smith'', w_role = Some ''Miner'',
     w_sector = Some ''A'', w_lat = Some 23.045, w_lng = Some 81.325\<rparr>"

definition near_worker :: mine_worker where
  "near_worker = \<lparr>w_id = Some ''W002'', w_name = Some ''Mike Johnson'', w_role = Some ''Driller'',
     w_sector = Some ''B'', w_lat = Some 23.051, w_lng = Some 81.333\<rparr>"

definition far_worker :: mine_worker where
  "far_worker = \<lparr>w_id = Some ''W003'', w_name = Some ''Sarah Williams'',
     w_role = Some ''Engineer'', w_sector = Some ''A'', w_lat = Some 23.075, w_lng = Some 81.365\<rparr>"

text \<open>A database that holds the example hazard only.\<close>

definition example_db :: db where
  "example_db = \<lparr>hazards_collection = [example_hazard], sensors_collection = []\<rparr>"

section \<open>Properties of the spread model\<close>

lemma spread_rate_pos: "0 < spread_rate hz"
  by (simp add: spread_rate_def SPREAD_RATES_def dict_get_def split: option.splits)

lemma example_rate: "spread_rate example_hazard = 0.002"
  by (simp add: spread_rate_def example_hazard_def SPREAD_RATES_def dict_get_def)

lemma zone_radii:
  "map radius (calculate_danger_zones hz t) =
     [t * spread_rate hz * 0.33, t * spread_rate hz * 0.67, t * spread_rate hz]"
  by (simp add: calculate_danger_zones_def Let_def)

lemma zone_levels:
  "map level (calculate_danger_zones hz t) = [''critical'', ''high'', ''medium'']"
  by (simp add: calculate_danger_zones_def Let_def)

text \<open>
  Claim C2, as stated (the danger-zone computation uses
  \<open>maxRadius = max(elapsedSeconds, 0) * spreadRate\<close>, so that all three radii are zero
  for a negative elapsed time), fails: the code multiplies the elapsed time by the
  spread rate without clamping it.  One second before the report the zones of the
  example hazard have non-zero radii, and the outer radius is not the clamped product.
\<close>

theorem negative_time_counterexample:
  "map radius (calculate_danger_zones example_hazard (- 1)) \<noteq> [0, 0, 0] \<and>
   radius (last (calculate_danger_zones example_hazard (- 1))) \<noteq>
     max (- 1) 0 * spread_rate example_hazard"
  by (simp add: zone_radii example_rate calculate_danger_zones_def Let_def)

text \<open>
  Claim C2, amended.  For every hazard and every elapsed time the three radii are
  0.33, 0.67 and 1.0 times \<open>elapsedSeconds * spreadRate\<close>, with a positive spread
  rate; this is the clamped product when the elapsed time is not negative, and for a
  negative elapsed time every radius is negative.
\<close>

theorem radii_unclamped:
  "map radius (calculate_danger_zones hz t) =
     [t * spread_rate hz * 0.33, t * spread_rate hz * 0.67, t * spread_rate hz] \<and>
   0 < spread_rate hz \<and>
   (0 \<le> t \<longrightarrow> t * spread_rate hz = max t 0 * spread_rate hz) \<and>
   (t < 0 \<longrightarrow> (\<forall>z \<in> set (calculate_danger_zones hz t). radius z < 0))"
proof -
  have neg: "\<forall>z \<in> set (calculate_danger_zones hz t). radius z < 0" if "t < 0"
  proof -
    from that spread_rate_pos [of hz] have "t * spread_rate hz < 0"
      by (simp add: mult_neg_pos)
    then show ?thesis
      by (simp add: calculate_danger_zones_def Let_def mult_neg_pos)
  qed
  show ?thesis
    using neg by (simp add: zone_radii spread_rate_pos max_def)
qed

theorem radii_unclamped_witness:
  "(- 1 :: real) < 0 \<and>
   map radius (calculate_danger_zones example_hazard (- 1)) = [- 0.00066, - 0.00134, - 0.002] \<and>
   list_all (\<lambda>z. radius z < 0) (calculate_danger_zones example_hazard (- 1))"
  using radii_unclamped [of example_hazard "- 1"] by (simp add: example_rate list_all_iff)

text \<open>
  Claim C4.  For every hazard and every elapsed time \<open>t \<ge> 0\<close>, the zones are
  returned in the order critical, high, medium; their radii are strictly increasing
  in that order when \<open>t > 0\<close>, and all three are 0 when \<open>t = 0\<close>.
\<close>

theorem zones_strictly_nested:
  assumes "0 \<le> t"
  shows "\<exists>rc rh rm.
     map radius (calculate_danger_zones hz t) = [rc, rh, rm] \<and>
     map level (calculate_danger_zones hz t) = [''critical'', ''high'', ''medium''] \<and>
     (0 < t \<longrightarrow> rc < rh \<and> rh < rm) \<and>
     (t = 0 \<longrightarrow> rc = 0 \<and> rh = 0 \<and> rm = 0)"
proof -
  define m where "m = t * spread_rate hz"
  define rc where "rc = m * 0.33"
  define rh where "rh = m * 0.67"
  have radii: "map radius (calculate_danger_zones hz t) = [rc, rh, m]"
    unfolding m_def rc_def rh_def by (rule zone_radii)
  have strict: "rc < rh \<and> rh < m" if "0 < t"
  proof -
    from that spread_rate_pos [of hz] have "0 < m"
      unfolding m_def by simp
    then show ?thesis by (simp add: rc_def rh_def)
  qed
  have zero: "rc = 0 \<and> rh = 0 \<and> m = 0" if "t = 0"
    using that by (simp add: m_def rc_def rh_def)
  have "map radius (calculate_danger_zones hz t) = [rc, rh, m] \<and>
     map level (calculate_danger_zones hz t) = [''critical'', ''high'', ''medium''] \<and>
     (0 < t \<longrightarrow> rc < rh \<and> rh < m) \<and>
     (t = 0 \<longrightarrow> rc = 0 \<and> rh = 0 \<and> m = 0)"
    using radii zone_levels [of hz t] strict zero by simp
  then show ?thesis
    by (intro exI)
qed

theorem zones_strictly_nested_witness:
  "(0 :: real) \<le> 10 \<and>
   (\<exists>rc rh rm. map radius (calculate_danger_zones example_hazard 10) = [rc, rh, rm] \<and>
      rc < rh \<and> rh < rm)"
proof -
  have h: "(0 :: real) \<le> 10" by simp
  from zones_strictly_nested [OF h, of example_hazard] show ?thesis
    by auto
qed

text \<open>
  Claim C10.  For every elapsed time, a hazard of type \<open>High CO2 Levels\<close> (the type
  string the classifier emits, here for the reading 900, 25, 60) has the same danger
  zones as a hazard of type \<open>Gas Leak\<close>: the spread-rate table has no entry for that
  string, so the rate is the default 0.002, which is the Gas Leak rate.
\<close>

theorem high_co2_zones_are_gas_leak_zones:
  "calculate_danger_zones (h1\<lparr>htype := Some ''High CO2 Levels''\<rparr>) t =
     calculate_danger_zones (h2\<lparr>htype := Some ''Gas Leak''\<rparr>) t \<and>
   SPREAD_RATES ''High CO2 Levels'' = None \<and>
   spread_rate (h1\<lparr>htype := Some ''High CO2 Levels''\<rparr>) = 0.002 \<and>
   spread_rate (h2\<lparr>htype := Some ''Gas Leak''\<rparr>) = 0.002 \<and>
   (\<exists>sev. detect_hazard_from_sensors 900 25 60 = (Some ''High CO2 Levels'', sev))"
  by (simp add: calculate_danger_zones_def spread_rate_def SPREAD_RATES_def dict_get_def
      detect_hazard_from_sensors_def)

section \<open>Properties of the sensor classifier\<close>

text \<open>
  Claim C1, as stated (the reading co2 = 1500, temperature = 60, humidity = 10 is
  classified as Gas Leak with severity critical), fails: the severity is critical only
  above 2000.
\<close>

theorem detect_1500_counterexample:
  "detect_hazard_from_sensors 1500 60 10 \<noteq> (Some ''Gas Leak'', Some ''critical'')"
  by (simp add: detect_hazard_from_sensors_def)

text \<open>
  Claim C1, amended.  The reading co2 = 1500, temperature = 60, humidity = 10 is
  classified as Gas Leak with severity high.  The gas check comes first and wins
  over the fire and humidity checks: with co2 = 1500 the result is Gas Leak, high,
  and never Fire, whatever the temperature and the humidity are.
\<close>

theorem detect_gas_wins:
  "detect_hazard_from_sensors 1500 60 10 = (Some ''Gas Leak'', Some ''high'') \<and>
   detect_hazard_from_sensors 1500 temperature humidity = (Some ''Gas Leak'', Some ''high'') \<and>
   fst (detect_hazard_from_sensors 1500 temperature humidity) \<noteq> Some ''Fire''"
  by (simp add: detect_hazard_from_sensors_def)

text \<open>
  Claim C7.  The gas thresholds are strict: co2 = 1000 never gives Gas Leak,
  co2 = 1001 gives Gas Leak with severity high, co2 = 2001 gives Gas Leak with
  severity critical, and the classifier answers High CO2 Levels with severity medium
  exactly when the gas, fire and humidity tests all fail and \<open>800 < co2 \<le> 1000\<close>.
\<close>

theorem detect_gas_thresholds:
  "fst (detect_hazard_from_sensors 1000 temperature humidity) \<noteq> Some ''Gas Leak'' \<and>
   detect_hazard_from_sensors 1001 temperature humidity = (Some ''Gas Leak'', Some ''high'') \<and>
   detect_hazard_from_sensors 2001 temperature humidity = (Some ''Gas Leak'', Some ''critical'') \<and>
   (detect_hazard_from_sensors co2 temperature humidity = (Some ''High CO2 Levels'', Some ''medium'')
      \<longleftrightarrow> \<not> 1000 < co2 \<and> \<not> 40 < temperature \<and> \<not> humidity < 20 \<and> 800 < co2 \<and> co2 \<le> 1000)"
  by (auto simp add: detect_hazard_from_sensors_def)

section \<open>Properties of the route advisor\<close>

text \<open>
  Claim C9.  For sector B the direction is \<open>Move to Sector A via Tunnel 1\<close>; for
  every sector the priority is CRITICAL and the estimated time is 2 minutes; a sector
  other than A, B and C gets the generic direction; and the result does not depend on
  the hazard location and the worker location.
\<close>

theorem evacuation_route_constant:
  "direction (get_evacuation_route hl wl (Some ''B'')) = ''Move to Sector A via Tunnel 1'' \<and>
   priority (get_evacuation_route hl wl sec) = ''CRITICAL'' \<and>
   estimated_time_minutes (get_evacuation_route hl wl sec) = 2 \<and>
   direction (get_evacuation_route hl wl sec) =
     (if sec = Some ''A'' then ''Move to Sector C via Tunnel 2''
      else if sec = Some ''B'' then ''Move to Sector A via Tunnel 1''
      else if sec = Some ''C'' then ''Exit mine immediately via Main Entrance''
      else ''Exit to safe zone away from hazard'') \<and>
   get_evacuation_route hl wl sec = get_evacuation_route hl' wl' sec"
  by (simp add: get_evacuation_route_def)

section \<open>Properties of the exposure evaluator\<close>

lemma place_worker_three:
  assumes "htype hz = Some ty" "lat (location hz) = Some hlat" "lng (location hz) = Some hlng"
    and "map radius (calculate_danger_zones hz t) = [rc, rh, rm]"
  shows "place_worker hz (calculate_danger_zones hz t) (three_buckets B) w =
     Inr (three_buckets (\<lambda>lvl. B lvl @ spec_bucket rc rh rm hlat hlng ty lvl [w]))"
  using assms
  by (auto simp add: place_worker_def worker_distance_def Let_def three_buckets_def
      spec_bucket_def spec_zone_of_def calculate_danger_zones_def fun_upd_twist)

lemma spec_bucket_Cons:
  "spec_bucket rc rh rm hlat hlng ty lvl (w # ws) =
     spec_bucket rc rh rm hlat hlng ty lvl [w] @ spec_bucket rc rh rm hlat hlng ty lvl ws"
  by (simp add: spec_bucket_def)

lemma place_workers_three:
  assumes "htype hz = Some ty" "lat (location hz) = Some hlat" "lng (location hz) = Some hlng"
    and "map radius (calculate_danger_zones hz t) = [rc, rh, rm]"
  shows "place_workers hz (calculate_danger_zones hz t) (three_buckets B) ws =
     Inr (three_buckets (\<lambda>lvl. B lvl @ spec_bucket rc rh rm hlat hlng ty lvl ws))"
proof (induction ws arbitrary: B)
  case Nil
  then show ?case by (simp add: spec_bucket_def)
next
  case (Cons w ws)
  show ?case
    by (simp add: place_worker_three [OF assms] Cons.IH
        spec_bucket_Cons [of _ _ _ _ _ _ _ w ws])
qed

lemma get_affected_workers_three:
  assumes "htype hz = Some ty" "lat (location hz) = Some hlat" "lng (location hz) = Some hlng"
    and "map radius (calculate_danger_zones hz t) = [rc, rh, rm]"
  shows "get_affected_workers hz ws t =
     Inr (three_buckets (\<lambda>lvl. spec_bucket rc rh rm hlat hlng ty lvl ws))"
proof -
  have "[''critical'' \<mapsto> [], ''high'' \<mapsto> [], ''medium'' \<mapsto> []] = three_buckets (\<lambda>lvl. [])"
    by (simp add: three_buckets_def)
  then show ?thesis
    by (simp add: get_affected_workers_def Let_def place_workers_three [OF assms])
qed

lemma worker_id_entry: "worker_id (affected_entry w d lvl ty) = w_id w"
  by (simp add: affected_entry_def)

lemma spec_bucket_ids:
  "map worker_id (spec_bucket rc rh rm hlat hlng ty lvl ws) =
     map w_id (filter (\<lambda>w. spec_zone_of rc rh rm (euclidean_distance hlat hlng w) = Some lvl) ws)"
  by (simp add: spec_bucket_def worker_id_entry comp_def)

lemma three_filters_length:
  assumes "\<And>x. \<not> (P x \<and> Q x)" "\<And>x. \<not> (P x \<and> R x)" "\<And>x. \<not> (Q x \<and> R x)"
  shows "length (filter P xs) + length (filter Q xs) + length (filter R xs) \<le> length xs"
  using assms by (induction xs) auto

lemma disjoint_filters_distinct:
  assumes d: "distinct (map f xs)" and ex: "\<And>x. \<not> (P x \<and> Q x)"
  shows "set (map f (filter P xs)) \<inter> set (map f (filter Q xs)) = {}"
proof (rule ccontr)
  assume "set (map f (filter P xs)) \<inter> set (map f (filter Q xs)) \<noteq> {}"
  then obtain a b where ab: "a \<in> set xs" "P a" "b \<in> set xs" "Q b" "f a = f b"
    by auto
  from d have "inj_on f (set xs)"
    by (simp add: distinct_map)
  with ab have "a = b"
    by (auto dest: inj_onD)
  with ab ex show False
    by blast
qed

lemma three_filters_distinct:
  assumes d: "distinct (map f xs)"
    and "\<And>x. \<not> (P x \<and> Q x)" "\<And>x. \<not> (P x \<and> R x)" "\<And>x. \<not> (Q x \<and> R x)"
  shows "distinct (map f (filter P xs) @ map f (filter Q xs) @ map f (filter R xs))"
proof -
  have each: "distinct (map f (filter S xs))" for S
    using d by (rule distinct_map_filter)
  show ?thesis
    using each disjoint_filters_distinct [OF d assms(2)] disjoint_filters_distinct [OF d assms(3)]
      disjoint_filters_distinct [OF d assms(4)]
    by (simp only: distinct_append set_append Int_Un_distrib) simp
qed

lemma origin_distance:
  "hlat = 23.045 \<Longrightarrow> hlng = 81.325 \<Longrightarrow> euclidean_distance hlat hlng origin_worker = 0"
  by (simp add: euclidean_distance_def origin_worker_def)

lemma near_distance:
  assumes "hlat = 23.045" "hlng = 81.325"
  shows "euclidean_distance hlat hlng near_worker = 0.01"
proof -
  have "euclidean_distance hlat hlng near_worker = sqrt ((23.051 - hlat)\<^sup>2 + (81.333 - hlng)\<^sup>2)"
    by (simp add: euclidean_distance_def near_worker_def)
  also have "\<dots> = 0.01"
    unfolding assms by (rule real_sqrt_unique) (simp_all add: power2_eq_square)
  finally show ?thesis .
qed

lemma far_distance:
  assumes "hlat = 23.045" "hlng = 81.325"
  shows "euclidean_distance hlat hlng far_worker = 0.05"
proof -
  have "euclidean_distance hlat hlng far_worker = sqrt ((23.075 - hlat)\<^sup>2 + (81.365 - hlng)\<^sup>2)"
    by (simp add: euclidean_distance_def far_worker_def)
  also have "\<dots> = 0.05"
    unfolding assms by (rule real_sqrt_unique) (simp_all add: power2_eq_square)
  finally show ?thesis .
qed

text \<open>
  Claim C3.  For a hazard document with a type and coordinates, the exposure
  evaluator returns the three buckets, and each bucket holds exactly the workers that
  the specification's rule assigns to its level: the first zone in the order critical,
  high, medium whose radius is at least the worker's Euclidean distance from the
  hazard origin.  A worker contributes at most one entry, so the buckets together are
  no longer than the input list, and with distinct worker ids no id occurs twice in
  the three buckets; a worker whose distance exceeds all three radii is in no bucket;
  and for a positive elapsed time a worker at the hazard origin is in the critical
  bucket.
\<close>

theorem exposure_first_zone:
  assumes ty: "htype hz = Some ty"
    and la: "lat (location hz) = Some hlat"
    and ln: "lng (location hz) = Some hlng"
  shows "\<exists>rc rh rm cr hi me.
     map radius (calculate_danger_zones hz t) = [rc, rh, rm] \<and>
     get_affected_workers hz ws t =
       Inr [''critical'' \<mapsto> cr, ''high'' \<mapsto> hi, ''medium'' \<mapsto> me] \<and>
     cr = spec_bucket rc rh rm hlat hlng ty ''critical'' ws \<and>
     hi = spec_bucket rc rh rm hlat hlng ty ''high'' ws \<and>
     me = spec_bucket rc rh rm hlat hlng ty ''medium'' ws \<and>
     length cr + length hi + length me \<le> length ws \<and>
     (distinct (map w_id ws) \<longrightarrow> distinct (map worker_id (cr @ hi @ me))) \<and>
     (\<forall>w \<in> set ws.
        rc < euclidean_distance hlat hlng w \<and> rh < euclidean_distance hlat hlng w \<and>
        rm < euclidean_distance hlat hlng w \<and> distinct (map w_id ws) \<longrightarrow>
          w_id w \<notin> set (map worker_id (cr @ hi @ me))) \<and>
     (\<forall>w \<in> set ws.
        0 < t \<and> w_lat w = Some hlat \<and> w_lng w = Some hlng \<longrightarrow>
          affected_entry w 0 ''critical'' ty \<in> set cr)"
proof -
  define rc where "rc = t * spread_rate hz * 0.33"
  define rh where "rh = t * spread_rate hz * 0.67"
  define rm where "rm = t * spread_rate hz"
  define zone where "zone w = spec_zone_of rc rh rm (euclidean_distance hlat hlng w)" for w
  define cr where "cr = spec_bucket rc rh rm hlat hlng ty ''critical'' ws"
  define hi where "hi = spec_bucket rc rh rm hlat hlng ty ''high'' ws"
  define me where "me = spec_bucket rc rh rm hlat hlng ty ''medium'' ws"
  have ids: "map worker_id cr = map w_id (filter (\<lambda>w. zone w = Some ''critical'') ws)"
    "map worker_id hi = map w_id (filter (\<lambda>w. zone w = Some ''high'') ws)"
    "map worker_id me = map w_id (filter (\<lambda>w. zone w = Some ''medium'') ws)"
    by (simp_all add: cr_def hi_def me_def spec_bucket_ids zone_def)
  have radii: "map radius (calculate_danger_zones hz t) = [rc, rh, rm]"
    unfolding rc_def rh_def rm_def by (rule zone_radii)
  have res: "get_affected_workers hz ws t =
      Inr [''critical'' \<mapsto> cr, ''high'' \<mapsto> hi, ''medium'' \<mapsto> me]"
    by (simp add: get_affected_workers_three [OF ty la ln radii] three_buckets_def
        cr_def hi_def me_def)
  have len: "length cr + length hi + length me \<le> length ws"
  proof -
    have "length (filter (\<lambda>w. zone w = Some ''critical'') ws) +
        length (filter (\<lambda>w. zone w = Some ''high'') ws) +
        length (filter (\<lambda>w. zone w = Some ''medium'') ws) \<le> length ws"
      by (rule three_filters_length) auto
    moreover have "length cr = length (map worker_id cr)" "length hi = length (map worker_id hi)"
      "length me = length (map worker_id me)"
      by simp_all
    ultimately show ?thesis
      by (simp only: ids length_map)
  qed
  have dis: "distinct (map worker_id (cr @ hi @ me))" if "distinct (map w_id ws)"
  proof -
    have "distinct (map w_id (filter (\<lambda>w. zone w = Some ''critical'') ws) @
        map w_id (filter (\<lambda>w. zone w = Some ''high'') ws) @
        map w_id (filter (\<lambda>w. zone w = Some ''medium'') ws))"
      using that by (rule three_filters_distinct) auto
    then show ?thesis
      by (simp only: map_append ids)
  qed
  have out: "w_id w \<notin> set (map worker_id (cr @ hi @ me))"
    if w: "w \<in> set ws" and far: "rc < euclidean_distance hlat hlng w"
      "rh < euclidean_distance hlat hlng w" "rm < euclidean_distance hlat hlng w"
      and d: "distinct (map w_id ws)" for w
  proof
    assume a: "w_id w \<in> set (map worker_id (cr @ hi @ me))"
    have "set (map worker_id (cr @ hi @ me)) \<subseteq> w_id ` {v \<in> set ws. zone v \<noteq> None}"
      unfolding map_append set_append ids by auto
    with a obtain v where v: "v \<in> set ws" "zone v \<noteq> None" "w_id v = w_id w"
      by auto
    from d have "inj_on w_id (set ws)"
      by (simp add: distinct_map)
    with v w have "v = w"
      by (auto dest: inj_onD)
    moreover from far have "zone w = None"
      by (simp add: zone_def spec_zone_of_def)
    ultimately show False
      using v by simp
  qed
  have origin: "affected_entry w 0 ''critical'' ty \<in> set cr"
    if w: "w \<in> set ws" and pos: "0 < t" and at: "w_lat w = Some hlat" "w_lng w = Some hlng" for w
  proof -
    from at have d0: "euclidean_distance hlat hlng w = 0"
      by (simp add: euclidean_distance_def)
    from pos spread_rate_pos [of hz] have "0 < rc"
      by (simp add: rc_def)
    with d0 have "spec_zone_of rc rh rm (euclidean_distance hlat hlng w) = Some ''critical''"
      by (simp add: spec_zone_of_def)
    with w d0 show ?thesis
      by (force simp add: cr_def spec_bucket_def)
  qed
  show ?thesis
  proof (intro exI conjI)
    show "map radius (calculate_danger_zones hz t) = [rc, rh, rm]"
      by (rule radii)
    show "get_affected_workers hz ws t =
        Inr [''critical'' \<mapsto> cr, ''high'' \<mapsto> hi, ''medium'' \<mapsto> me]"
      by (rule res)
    show "cr = spec_bucket rc rh rm hlat hlng ty ''critical'' ws"
      by (rule cr_def)
    show "hi = spec_bucket rc rh rm hlat hlng ty ''high'' ws"
      by (rule hi_def)
    show "me = spec_bucket rc rh rm hlat hlng ty ''medium'' ws"
      by (rule me_def)
    show "length cr + length hi + length me \<le> length ws"
      by (rule len)
    show "distinct (map w_id ws) \<longrightarrow> distinct (map worker_id (cr @ hi @ me))"
      using dis by blast
    show "\<forall>w \<in> set ws.
        rc < euclidean_distance hlat hlng w \<and> rh < euclidean_distance hlat hlng w \<and>
        rm < euclidean_distance hlat hlng w \<and> distinct (map w_id ws) \<longrightarrow>
          w_id w \<notin> set (map worker_id (cr @ hi @ me))"
      using out by blast
    show "\<forall>w \<in> set ws.
        0 < t \<and> w_lat w = Some hlat \<and> w_lng w = Some hlng \<longrightarrow>
          affected_entry w 0 ''critical'' ty \<in> set cr"
      using origin by blast
  qed
qed

theorem exposure_first_zone_witness:
  "htype example_hazard = Some ''Gas Leak'' \<and>
   lat (location example_hazard) = Some 23.045 \<and>
   lng (location example_hazard) = Some 81.325 \<and>
   distinct (map w_id [origin_worker, near_worker, far_worker]) \<and>
   (\<exists>cr hi.
      get_affected_workers example_hazard [origin_worker, near_worker, far_worker] 10 =
        Inr [''critical'' \<mapsto> cr, ''high'' \<mapsto> hi, ''medium'' \<mapsto> []] \<and>
      map worker_id cr = [Some ''W001''] \<and> map worker_id hi = [Some ''W002''])"
proof -
  have h: "htype example_hazard = Some ''Gas Leak''"
    "lat (location example_hazard) = Some 23.045"
    "lng (location example_hazard) = Some 81.325"
    by (simp_all add: example_hazard_def)
  have d: "distinct (map w_id [origin_worker, near_worker, far_worker])"
    by (simp add: origin_worker_def near_worker_def far_worker_def)
  from exposure_first_zone [OF h, of 10 "[origin_worker, near_worker, far_worker]"]
  obtain rc rh rm cr hi me where r:
    "map radius (calculate_danger_zones example_hazard 10) = [rc, rh, rm]"
    "get_affected_workers example_hazard [origin_worker, near_worker, far_worker] 10 =
       Inr [''critical'' \<mapsto> cr, ''high'' \<mapsto> hi, ''medium'' \<mapsto> me]"
    "cr = spec_bucket rc rh rm 23.045 81.325 ''Gas Leak'' ''critical''
       [origin_worker, near_worker, far_worker]"
    "hi = spec_bucket rc rh rm 23.045 81.325 ''Gas Leak'' ''high''
       [origin_worker, near_worker, far_worker]"
    "me = spec_bucket rc rh rm 23.045 81.325 ''Gas Leak'' ''medium''
       [origin_worker, near_worker, far_worker]"
    by (elim exE conjE) (rule that; assumption)
  from r(1) have radii: "rc = 0.0066" "rh = 0.0134" "rm = 0.02"
    by (simp_all add: zone_radii example_rate)
  have b: "map worker_id cr = [Some ''W001'']" "map worker_id hi = [Some ''W002'']" "me = []"
    unfolding r(3,4,5) radii
    by (simp_all add: spec_bucket_def spec_zone_of_def origin_distance near_distance far_distance
        worker_id_entry)
       (simp_all add: origin_worker_def near_worker_def)
  have e: "\<exists>cr hi.
      get_affected_workers example_hazard [origin_worker, near_worker, far_worker] 10 =
        Inr [''critical'' \<mapsto> cr, ''high'' \<mapsto> hi, ''medium'' \<mapsto> []] \<and>
      map worker_id cr = [Some ''W001''] \<and> map worker_id hi = [Some ''W002'']"
  proof (intro exI conjI)
    show "get_affected_workers example_hazard [origin_worker, near_worker, far_worker] 10 =
        Inr [''critical'' \<mapsto> cr, ''high'' \<mapsto> hi, ''medium'' \<mapsto> []]"
      using r(2) unfolding b(3) .
    show "map worker_id cr = [Some ''W001'']" by (rule b(1))
    show "map worker_id hi = [Some ''W002'']" by (rule b(2))
  qed
  show ?thesis
    by (intro conjI h d e)
qed

section \<open>Properties of the frame generator\<close>

lemma py_int_of_int: "py_int (of_int n) = n"
  by (simp add: py_int_def)

lemma frame_step_eq: "fps \<noteq> 0 \<Longrightarrow> frame_step fps = Inr fps"
  by (simp add: frame_step_def Let_def py_int_of_int)

lemma frames_loop_times: "frames_loop hz ws ts = Inr frs \<Longrightarrow> map time frs = ts"
proof (induction ts arbitrary: frs)
  case Nil
  then show ?case by simp
next
  case (Cons t ts)
  then show ?case
    by (auto simp add: make_frame_def split: sum.splits)
qed

lemma py_range_30_2: "py_range 0 30 2 = Inr [0, 2, 4, 6, 8, 10, 12, 14, 16, 18, 20, 22, 24, 26, 28]"
  by code_simp

lemma no_workers: "get_affected_workers hz [] t = Inr [''critical'' \<mapsto> [], ''high'' \<mapsto> [], ''medium'' \<mapsto> []]"
  by (simp add: get_affected_workers_def)

lemma half_rounds: "py_round (1 / 2) = 0" "\<lceil>1 / 2 :: real\<rceil> = 1"
  by (simp_all add: py_round_def ceiling_eq_iff)

lemma generate_frames_range:
  "fps \<noteq> 0 \<Longrightarrow>
   generate_simulation_frames hz ws total_seconds fps =
     (case py_range 0 total_seconds fps of
        Inl e \<Rightarrow> Inl e
      | Inr ts \<Rightarrow> frames_loop hz ws ts)"
  by (simp add: generate_simulation_frames_def frame_step_eq)

text \<open>
  Claim C5 says that the frame times advance by \<open>1 / fps\<close> rounded to whole seconds.
  The code steps by \<^verbatim>\<open>int(1 / frame_interval)\<close> with \<^verbatim>\<open>frame_interval = 1 / fps\<close>,
  which is \<open>fps\<close> itself: for 30 seconds at 2 frames per second the step is 2, where
  half a second rounds to 0 (half to even) or at most to 1, and the frames are those of
  the times 0, 2, ..., 28.
\<close>

theorem frames_30_2_step_two:
  "frame_step 2 = Inr 2 \<and>
   py_round (1 / 2) = 0 \<and> \<lceil>1 / 2 :: real\<rceil> = 1 \<and>
   py_range 0 30 2 = Inr [0, 2, 4, 6, 8, 10, 12, 14, 16, 18, 20, 22, 24, 26, 28] \<and>
   generate_simulation_frames hz ws 30 2 =
     frames_loop hz ws [0, 2, 4, 6, 8, 10, 12, 14, 16, 18, 20, 22, 24, 26, 28] \<and>
   map_sum id (map time) (generate_simulation_frames example_hazard [] 30 2) =
     Inr [0, 2, 4, 6, 8, 10, 12, 14, 16, 18, 20, 22, 24, 26, 28]"
  by (simp add: generate_simulation_frames_def frame_step_eq py_range_30_2 make_frame_def
      no_workers half_rounds)

section \<open>Properties of the status update\<close>

lemma update_one_no_match:
  "find_one coll oid = None \<Longrightarrow>
   update_one coll oid st = (coll, \<lparr>matched_count = 0, modified_count = 0\<rparr>)"
  by (induction coll) (auto simp add: find_one_def split: if_splits)

lemma update_one_same:
  "find_one coll oid = Some d \<Longrightarrow> status d = st \<Longrightarrow>
   update_one coll oid st = (coll, \<lparr>matched_count = 1, modified_count = 0\<rparr>)"
  by (induction coll) (auto simp add: find_one_def split: if_splits)

lemma update_one_changed:
  "find_one coll oid = Some d \<Longrightarrow> status d \<noteq> st \<Longrightarrow>
   \<exists>coll'. update_one coll oid st = (coll', \<lparr>matched_count = 1, modified_count = 1\<rparr>) \<and>
     find_one coll' oid = Some (d\<lparr>status := st\<rparr>) \<and>
     (\<forall>other. other \<noteq> oid \<longrightarrow> find_one coll' other = find_one coll other) \<and>
     map h_id coll' = map h_id coll"
proof (induction coll)
  case Nil
  then show ?case by (simp add: find_one_def)
next
  case (Cons a coll)
  show ?case
  proof (cases "h_id a = oid")
    case True
    with Cons.prems show ?thesis
      by (auto simp add: find_one_def)
  next
    case False
    with Cons.prems have "find_one coll oid = Some d"
      by (simp add: find_one_def)
    from Cons.IH [OF this Cons.prems(2)] obtain coll' where
      c: "update_one coll oid st = (coll', \<lparr>matched_count = 1, modified_count = 1\<rparr>)"
        "find_one coll' oid = Some (d\<lparr>status := st\<rparr>)"
        "\<forall>other. other \<noteq> oid \<longrightarrow> find_one coll' other = find_one coll other"
        "map h_id coll' = map h_id coll"
      by blast
    with False show ?thesis
      by (auto simp add: find_one_def)
  qed
qed

lemma valid_status_cases:
  "s \<in> set valid_statuses \<longleftrightarrow>
     s = ''pending'' \<or> s = ''acknowledged'' \<or> s = ''escalated'' \<or> s = ''resolved''"
  by (auto simp add: valid_statuses_def)

lemma ObjectId_example: "ObjectId ''64b7f0c2a1d3e4f5a6b7c8d9'' = Inr ''64b7f0c2a1d3e4f5a6b7c8d9''"
  by (simp add: ObjectId_def is_hex_digit_def hex_lower_def)

lemma ObjectId_zeros: "ObjectId ''000000000000000000000000'' = Inr ''000000000000000000000000''"
  by (simp add: ObjectId_def is_hex_digit_def hex_lower_def)

lemma ObjectId_abc: "ObjectId ''abc'' = Inl InvalidId"
  by (simp add: ObjectId_def)

lemma find_example: "find_one (hazards_collection example_db) ''64b7f0c2a1d3e4f5a6b7c8d9'' = Some example_hazard"
  by (simp add: example_db_def find_one_def example_hazard_def)

lemma find_zeros: "find_one (hazards_collection example_db) ''000000000000000000000000'' = None"
  by (simp add: example_db_def find_one_def example_hazard_def)

text \<open>
  Claim C6, as stated (the status update fails with NotFound whenever no hazard
  matches the given id), fails: for an id that is not the text of an \<^verbatim>\<open>ObjectId\<close>,
  which no hazard matches, \<^verbatim>\<open>ObjectId(hazard_id)\<close> raises and the route answers with
  status 500.
\<close>

theorem malformed_id_counterexample:
  "find_one [example_hazard] ''abc'' = None \<and>
   ''resolved'' \<in> set valid_statuses \<and>
   update_hazard_status \<lparr>hazards_collection = [example_hazard], sensors_collection = []\<rparr>
       ''abc'' [''status'' \<mapsto> ''resolved''] =
     (ServerError InvalidId, \<lparr>hazards_collection = [example_hazard], sensors_collection = []\<rparr>) \<and>
   ServerError InvalidId \<noteq> HazardNotFound"
  by (simp add: find_one_def example_hazard_def valid_statuses_def update_hazard_status_def
      HazardModel_update_hazard_status_def ObjectId_def)

text \<open>
  When the new status is the one the document already has, \<^verbatim>\<open>update_one\<close> modifies
  nothing, \<^verbatim>\<open>modified_count\<close> is 0 and the route answers that the hazard was not found.
\<close>

lemma same_status_not_found:
  assumes "rdata ''status'' = Some s" "s \<in> set valid_statuses"
    "ObjectId hazard_id = Inr oid" "find_one (hazards_collection dbs) oid = Some d" "status d = s"
  shows "update_hazard_status dbs hazard_id rdata = (HazardNotFound, dbs)"
  using assms update_one_same [of "hazards_collection dbs" oid d s]
  by (simp add: update_hazard_status_def HazardModel_update_hazard_status_def)

lemma same_status_example:
  "update_hazard_status example_db ''64b7f0c2a1d3e4f5a6b7c8d9'' [''status'' \<mapsto> ''pending''] =
     (HazardNotFound, example_db)"
  by (rule same_status_not_found [where s = "''pending''" and d = example_hazard
        and oid = "''64b7f0c2a1d3e4f5a6b7c8d9''"])
     (simp_all add: valid_statuses_def ObjectId_example find_example example_hazard_def)

text \<open>
  Claim C6, amended.  The status update answers InvalidStatus, with the database
  unchanged, whenever the new status is not one of the four literals.  For a valid
  status it answers with an internal error when the id is not the text of an
  \<^verbatim>\<open>ObjectId\<close>, and with NotFound when the id is well formed and no hazard matches it,
  the database unchanged in both cases.  When a hazard matches and its status differs
  from the new one, it stores the new status in that document, leaves every other
  document as it was, and returns the updated document.
\<close>

theorem status_update_outcomes:
  "(rdata ''status'' \<notin> Some ` set valid_statuses \<longrightarrow>
      update_hazard_status dbs hazard_id rdata = (InvalidStatus, dbs)) \<and>
   (rdata ''status'' = Some s \<and> s \<in> set valid_statuses \<longrightarrow>
      (ObjectId hazard_id = Inl InvalidId \<longrightarrow>
         update_hazard_status dbs hazard_id rdata = (ServerError InvalidId, dbs)) \<and>
      (ObjectId hazard_id = Inr oid \<and> find_one (hazards_collection dbs) oid = None \<longrightarrow>
         update_hazard_status dbs hazard_id rdata = (HazardNotFound, dbs)) \<and>
      (ObjectId hazard_id = Inr oid \<and> find_one (hazards_collection dbs) oid = Some d \<and>
       status d \<noteq> s \<longrightarrow>
         (\<exists>dbs'. update_hazard_status dbs hazard_id rdata =
                   (StatusUpdated (d\<lparr>status := s\<rparr>) s, dbs') \<and>
                 find_one (hazards_collection dbs') oid = Some (d\<lparr>status := s\<rparr>) \<and>
                 (\<forall>other. other \<noteq> oid \<longrightarrow>
                    find_one (hazards_collection dbs') other =
                    find_one (hazards_collection dbs) other) \<and>
                 sensors_collection dbs' = sensors_collection dbs)))"
proof (intro conjI impI)
  assume "rdata ''status'' \<notin> Some ` set valid_statuses"
  then show "update_hazard_status dbs hazard_id rdata = (InvalidStatus, dbs)"
    by (auto simp add: update_hazard_status_def split: option.splits)
next
  assume v: "rdata ''status'' = Some s \<and> s \<in> set valid_statuses"
    and "ObjectId hazard_id = Inl InvalidId"
  then show "update_hazard_status dbs hazard_id rdata = (ServerError InvalidId, dbs)"
    by (simp add: update_hazard_status_def HazardModel_update_hazard_status_def)
next
  assume v: "rdata ''status'' = Some s \<and> s \<in> set valid_statuses"
    and "ObjectId hazard_id = Inr oid \<and> find_one (hazards_collection dbs) oid = None"
  then show "update_hazard_status dbs hazard_id rdata = (HazardNotFound, dbs)"
    using update_one_no_match [of "hazards_collection dbs" oid s]
    by (simp add: update_hazard_status_def HazardModel_update_hazard_status_def)
next
  assume v: "rdata ''status'' = Some s \<and> s \<in> set valid_statuses"
    and m: "ObjectId hazard_id = Inr oid \<and> find_one (hazards_collection dbs) oid = Some d \<and>
       status d \<noteq> s"
  from m update_one_changed [of "hazards_collection dbs" oid d s] obtain coll' where
    c: "update_one (hazards_collection dbs) oid s =
          (coll', \<lparr>matched_count = 1, modified_count = 1\<rparr>)"
       "find_one coll' oid = Some (d\<lparr>status := s\<rparr>)"
       "\<forall>other. other \<noteq> oid \<longrightarrow> find_one coll' other = find_one (hazards_collection dbs) other"
    by blast
  let ?dbs' = "dbs\<lparr>hazards_collection := coll'\<rparr>"
  have "update_hazard_status dbs hazard_id rdata = (StatusUpdated (d\<lparr>status := s\<rparr>) s, ?dbs')"
    using v m c
    by (simp add: update_hazard_status_def HazardModel_update_hazard_status_def
        get_hazard_by_id_def)
  with c show "\<exists>dbs'. update_hazard_status dbs hazard_id rdata =
                   (StatusUpdated (d\<lparr>status := s\<rparr>) s, dbs') \<and>
                 find_one (hazards_collection dbs') oid = Some (d\<lparr>status := s\<rparr>) \<and>
                 (\<forall>other. other \<noteq> oid \<longrightarrow>
                    find_one (hazards_collection dbs') other =
                    find_one (hazards_collection dbs) other) \<and>
                 sensors_collection dbs' = sensors_collection dbs"
    by (intro exI [of _ ?dbs']) simp
qed

theorem status_update_outcomes_witness:
  "update_hazard_status example_db ''64b7f0c2a1d3e4f5a6b7c8d9'' [''status'' \<mapsto> ''bogus''] =
     (InvalidStatus, example_db) \<and>
   update_hazard_status example_db ''abc'' [''status'' \<mapsto> ''resolved''] =
     (ServerError InvalidId, example_db) \<and>
   update_hazard_status example_db ''000000000000000000000000'' [''status'' \<mapsto> ''resolved''] =
     (HazardNotFound, example_db) \<and>
   fst (update_hazard_status example_db ''64b7f0c2a1d3e4f5a6b7c8d9'' [''status'' \<mapsto> ''resolved''])
     = StatusUpdated (example_hazard\<lparr>status := ''resolved''\<rparr>) ''resolved''"
proof -
  have st: "status example_hazard \<noteq> ''resolved''"
    by (simp add: example_hazard_def)
  have v: "''resolved'' \<in> set valid_statuses" "[''status'' \<mapsto> ''bogus''] ''status'' \<notin> Some ` set valid_statuses"
    by (auto simp add: valid_statuses_def)
  from
    status_update_outcomes [where rdata = "[''status'' \<mapsto> ''bogus'']" and dbs = example_db
      and hazard_id = "''64b7f0c2a1d3e4f5a6b7c8d9''"]
    status_update_outcomes [where rdata = "[''status'' \<mapsto> ''resolved'']" and dbs = example_db
      and hazard_id = "''abc''" and s = "''resolved''"]
    status_update_outcomes [where rdata = "[''status'' \<mapsto> ''resolved'']" and dbs = example_db
      and hazard_id = "''000000000000000000000000''" and s = "''resolved''"
      and oid = "''000000000000000000000000''"]
    status_update_outcomes [where rdata = "[''status'' \<mapsto> ''resolved'']" and dbs = example_db
      and hazard_id = "''64b7f0c2a1d3e4f5a6b7c8d9''" and s = "''resolved''"
      and oid = "''64b7f0c2a1d3e4f5a6b7c8d9''" and d = example_hazard]
  show ?thesis
    using st v
    by (auto simp add: ObjectId_example ObjectId_zeros ObjectId_abc find_example find_zeros)
qed

section \<open>Properties of the sensor route\<close>

lemma hex_lower_id: "c \<in> set ''0123456789abcdef'' \<Longrightarrow> hex_lower c = c"
  by (auto simp add: hex_lower_def)

lemma lower_is_hex: "c \<in> set ''0123456789abcdef'' \<Longrightarrow> is_hex_digit c"
  by (auto simp add: is_hex_digit_def)

lemma ObjectId_generated: "generated_id s \<Longrightarrow> ObjectId s = Inr s"
proof -
  assume g: "generated_id s"
  then have "list_all is_hex_digit s"
    by (auto simp add: generated_id_def list_all_iff lower_is_hex)
  moreover from g have "map hex_lower s = s"
    by (intro map_idI) (auto simp add: generated_id_def list_all_iff hex_lower_id)
  ultimately show ?thesis
    using g by (simp add: ObjectId_def generated_id_def)
qed

lemma find_one_append_new:
  "h_id doc = oid \<Longrightarrow> find_one coll oid = None \<Longrightarrow> find_one (coll @ [doc]) oid = Some doc"
  by (induction coll) (auto simp add: find_one_def split: if_splits)

lemma find_one_append_other:
  "oid \<noteq> h_id doc \<Longrightarrow> find_one (coll @ [doc]) oid = find_one coll oid"
  by (induction coll) (auto simp add: find_one_def)

lemma h_id_hazard_document: "h_id (hazard_document hdata now new_id) = new_id"
  by (simp add: hazard_document_def)

lemma create_hazard_fresh:
  assumes "generated_id new_id" "find_one (hazards_collection dbs) new_id = None"
  shows "create_hazard dbs hdata now new_id =
     (Inr (Some (hazard_document hdata now new_id)),
      dbs\<lparr>hazards_collection := hazards_collection dbs @ [hazard_document hdata now new_id]\<rparr>)"
  using assms ObjectId_generated [OF assms(1)]
  by (simp add: create_hazard_def insert_one_def h_id_hazard_document get_hazard_by_id_def
      find_one_append_new)

lemma receive_detected:
  assumes "detect_hazard_from_sensors
       (reading_co2 sdata) (reading_temperature sdata) (reading_humidity sdata) = (Some ty, sev)"
    and "generated_id new_id"
    and "find_one (hazards_collection dbs) new_id = None"
  shows "receive_sensor_data app dbs sdata now_log now_create new_id =
     (let hz = hazard_document (detected_hazard_data sdata ty sev) now_create new_id
      in \<lparr>rr_response = HazardDetected ty sev new_id,
          rr_db = (log_sensor_reading dbs sdata now_log)
            \<lparr>hazards_collection := hazards_collection dbs @ [hz]\<rparr>,
          rr_emitted = fst (emit_new_hazard app (Some hz)),
          rr_printed = snd (emit_new_hazard app (Some hz))\<rparr>)"
proof -
  have fresh': "find_one (hazards_collection (log_sensor_reading dbs sdata now_log)) new_id = None"
    using assms(3) by (simp add: log_sensor_reading_def Let_def)
  have coll: "hazards_collection (log_sensor_reading dbs sdata now_log) = hazards_collection dbs"
    by (simp add: log_sensor_reading_def Let_def)
  show ?thesis
    using assms(1)
    by (simp add: receive_sensor_data_def Let_def create_hazard_fresh [OF assms(2) fresh']
        h_id_hazard_document case_prod_beta coll)
qed

lemma socket_independent:
  "rr_response (receive_sensor_data app dbs sdata now_log now_create new_id) =
     rr_response (receive_sensor_data None dbs sdata now_log now_create new_id) \<and>
   rr_db (receive_sensor_data app dbs sdata now_log now_create new_id) =
     rr_db (receive_sensor_data None dbs sdata now_log now_create new_id)"
proof -
  define r where "r = detect_hazard_from_sensors
       (reading_co2 sdata) (reading_temperature sdata) (reading_humidity sdata)"
  show ?thesis
    unfolding receive_sensor_data_def Let_def r_def [symmetric]
    by (cases r; cases "fst r")
       (simp_all add: case_prod_beta split: sum.split)
qed

lemma generated_example: "generated_id ''64b7f0c2a1d3e4f5a6b7c8d9''"
  by (simp add: generated_id_def)

text \<open>
  Claim C8.  When the classifier detects a hazard in the reading and the hazard is
  created (the generated identifier is new), the route answers with status 201 and the
  identifier of the created hazard, and the database holds the created document,
  whatever the socket does: response and database are those of an application without
  a socket, also when \<^verbatim>\<open>emit\<close> raises.
\<close>

theorem broadcast_failure_keeps_creation:
  assumes detected: "detect_hazard_from_sensors
       (reading_co2 sdata) (reading_temperature sdata) (reading_humidity sdata) = (Some ty, sev)"
    and gen: "generated_id new_id"
    and fresh: "find_one (hazards_collection dbs) new_id = None"
  shows "rr_response (receive_sensor_data app dbs sdata now_log now_create new_id) =
           HazardDetected ty sev new_id \<and>
         status_code (rr_response (receive_sensor_data app dbs sdata now_log now_create new_id))
           = 201 \<and>
         find_one (hazards_collection
             (rr_db (receive_sensor_data app dbs sdata now_log now_create new_id))) new_id =
           Some (hazard_document (detected_hazard_data sdata ty sev) now_create new_id) \<and>
         rr_response (receive_sensor_data app dbs sdata now_log now_create new_id) =
           rr_response (receive_sensor_data None dbs sdata now_log now_create new_id) \<and>
         rr_db (receive_sensor_data app dbs sdata now_log now_create new_id) =
           rr_db (receive_sensor_data None dbs sdata now_log now_create new_id)"
proof -
  let ?hz = "hazard_document (detected_hazard_data sdata ty sev) now_create new_id"
  have "find_one (hazards_collection dbs @ [?hz]) new_id = Some ?hz"
    using h_id_hazard_document fresh by (rule find_one_append_new)
  then show ?thesis
    by (simp add: receive_detected [OF detected gen fresh] Let_def)
qed

theorem broadcast_failure_keeps_creation_witness:
  "generated_id ''64b7f0c2a1d3e4f5a6b7c8d9'' \<and>
   rr_response (receive_sensor_data (Some failing_socket)
       \<lparr>hazards_collection = [], sensors_collection = []\<rparr> gas_reading 7 8
       ''64b7f0c2a1d3e4f5a6b7c8d9'') =
     HazardDetected ''Gas Leak'' (Some ''high'') ''64b7f0c2a1d3e4f5a6b7c8d9'' \<and>
   rr_printed (receive_sensor_data (Some failing_socket)
       \<lparr>hazards_collection = [], sensors_collection = []\<rparr> gas_reading 7 8
       ''64b7f0c2a1d3e4f5a6b7c8d9'') = [SocketError]"
proof -
  have d: "detect_hazard_from_sensors
       (reading_co2 gas_reading) (reading_temperature gas_reading) (reading_humidity gas_reading) =
     (Some ''Gas Leak'', Some ''high'')"
    by (simp add: gas_reading_def detect_hazard_from_sensors_def reading_co2_def
        reading_temperature_def reading_humidity_def)
  have f: "find_one (hazards_collection \<lparr>hazards_collection = [], sensors_collection = []\<rparr>)
      ''64b7f0c2a1d3e4f5a6b7c8d9'' = None"
    by (simp add: find_one_def)
  have p: "rr_printed (receive_sensor_data (Some failing_socket)
       \<lparr>hazards_collection = [], sensors_collection = []\<rparr> gas_reading 7 8
       ''64b7f0c2a1d3e4f5a6b7c8d9'') = [SocketError]"
    by (simp add: receive_detected [OF d generated_example f] Let_def emit_new_hazard_def
        failing_socket_def)
  from broadcast_failure_keeps_creation [OF d generated_example f, of "Some failing_socket" 7 8]
    generated_example p
  show ?thesis by simp
qed

end
